theory Spec2Isabelle
  imports Complex_Main "HOL-Library.Sublist" "HOL-Library.Multiset"
    "HOL-Library.Char_ord" "HOL-Library.List_Lexorder"
begin

section \<open>Graph model: constants, nodes and the identity scheme (graph/graph.go)\<close>

definition GraphTypeApp :: string where "GraphTypeApp = ''app''"
definition GraphTypeService :: string where "GraphTypeService = ''service''"
definition GraphTypeVersionedApp :: string where "GraphTypeVersionedApp = ''versionedApp''"
definition GraphTypeWorkload :: string where "GraphTypeWorkload = ''workload''"
definition NodeTypeApp :: string where "NodeTypeApp = ''app''"
definition NodeTypeService :: string where "NodeTypeService = ''service''"
definition NodeTypeUnknown :: string where "NodeTypeUnknown = ''unknown''"
definition NodeTypeWorkload :: string where "NodeTypeWorkload = ''workload''"
definition UnknownApp :: string where "UnknownApp = ''unknown''"
definition UnknownNamespace :: string where "UnknownNamespace = ''unknown''"
definition UnknownService :: string where "UnknownService = ''unknown''"
definition UnknownVersion :: string where "UnknownVersion = ''unknown''"
definition UnknownWorkload :: string where "UnknownWorkload = ''unknown''"

text \<open>A panic of the Go runtime, carrying its message.\<close>

datatype error = Panic string

text \<open>
  The message of the two \<open>panic\<close> calls of \<open>Id\<close>:
  \<open>fmt.Sprintf("Failed ID gen: namespace=[%s] workload=[%s] app=[%s] version=[%s]
  service=[%s] graphType=[%s]", ...)\<close>.
\<close>

definition failedIdGen ::
  "string \<Rightarrow> string \<Rightarrow> string \<Rightarrow> string \<Rightarrow> string \<Rightarrow> string \<Rightarrow> string" where
  "failedIdGen namespace workload app version service graphType =
     ''Failed ID gen: namespace=['' @ namespace @ ''] workload=['' @ workload @
     ''] app=['' @ app @ ''] version=['' @ version @ ''] service=['' @ service @
     ''] graphType=['' @ graphType @ '']''"

text \<open>
  \<open>Id\<close>, branch by branch in the order of the source. A panic is the value
  \<open>Inl (Panic msg)\<close>, a normal return is \<open>Inr (id, nodeType)\<close>.
\<close>

definition Id ::
  "string \<Rightarrow> string \<Rightarrow> string \<Rightarrow> string \<Rightarrow> string \<Rightarrow> string \<Rightarrow> error + (string \<times> string)"
  where
  "Id namespace workload app version service graphType =
     (if UnknownNamespace = namespace \<and> UnknownWorkload = workload \<and> UnknownApp = app
         \<and> '''' = service
      then Inr (''unknown_source'', NodeTypeUnknown)
      else if UnknownWorkload = workload \<and> UnknownApp = app \<and> UnknownService = service
      then Inr (''svc_'' @ namespace @ ''_unknown'', NodeTypeService)
      else
        let workloadOk = (workload \<noteq> '''' \<and> workload \<noteq> UnknownWorkload);
            appOk = (app \<noteq> '''' \<and> app \<noteq> UnknownApp);
            serviceOk = (service \<noteq> '''' \<and> service \<noteq> UnknownService)
        in
          if \<not> workloadOk \<and> \<not> appOk \<and> \<not> serviceOk
          then Inl (Panic (failedIdGen namespace workload app version service graphType))
          else if graphType = GraphTypeWorkload \<or> graphType = GraphTypeService
          then
            (if \<not> workloadOk \<and> \<not> serviceOk
             then Inl (Panic (failedIdGen namespace workload app version service graphType))
             else if \<not> workloadOk
             then Inr (''svc_'' @ namespace @ ''_'' @ service, NodeTypeService)
             else Inr (''wl_'' @ namespace @ ''_'' @ workload, NodeTypeWorkload))
          else if appOk
          then
            (if graphType = GraphTypeVersionedApp
             then Inr (''vapp_'' @ namespace @ ''_'' @ workload, NodeTypeApp)
             else Inr (''app_'' @ namespace @ ''_'' @ app, NodeTypeApp))
          else if workloadOk
          then Inr (''wl_'' @ namespace @ ''_'' @ workload, NodeTypeWorkload)
          else Inr (''svc_'' @ namespace @ ''_'' @ service, NodeTypeService))"

text \<open>
  Metadata values: the dynamic types that the appenders store in a
  \<open>map[string]interface{}\<close> and the serializer asserts (\<open>float64\<close>, \<open>bool\<close>,
  \<open>string\<close>, \<open>map[string]bool\<close>), a stored \<open>nil\<close>, and any other dynamic type.
  The type \<open>'f\<close> stands for \<open>float64\<close>.
\<close>

datatype 'f val =
    VNil
  | VFloat 'f
  | VBool bool
  | VString string
  | VBoolMap "string \<rightharpoonup> bool"
  | VOther

text \<open>
  Pointers are optional addresses (\<open>None\<close> is \<open>nil\<close>). A \<open>Node\<close> holds its identity
  fields, the pointers to its outgoing edges and its metadata bag.
\<close>

type_synonym ptr = "nat option"

record 'f Node =
  ID :: string
  NodeType :: string
  Namespace :: string
  Workload :: string
  App :: string
  Version :: string
  Service :: string
  Edges :: "ptr list"
  Metadata :: "string \<rightharpoonup> 'f val"

record 'f Edge =
  Source :: ptr
  Dest :: ptr
  EdgeMetadata :: "string \<rightharpoonup> 'f val"

text \<open>
  \<open>NewNodeExplicit\<close>: the \<open>switch\<close> on the node type trims the fields; a node type
  that matches no \<open>case\<close> keeps every field as supplied. The new node has no edges and
  an empty metadata bag.
\<close>

definition NewNodeExplicit ::
  "string \<Rightarrow> string \<Rightarrow> string \<Rightarrow> string \<Rightarrow> string \<Rightarrow> string \<Rightarrow> string \<Rightarrow> string \<Rightarrow> 'f Node"
  where
  "NewNodeExplicit id' namespace workload app version service nodeType graphType =
     (if nodeType = NodeTypeWorkload then
        \<lparr>ID = id', NodeType = nodeType, Namespace = namespace, Workload = workload,
         App = (if app = UnknownApp then [] else app),
         Version = (if version = UnknownVersion then [] else version),
         Service = [], Edges = [], Metadata = Map.empty\<rparr>
      else if nodeType = NodeTypeApp then
        \<lparr>ID = id', NodeType = nodeType, Namespace = namespace,
         Workload = (if graphType \<noteq> GraphTypeVersionedApp then [] else workload),
         App = app,
         Version = (if graphType \<noteq> GraphTypeVersionedApp then [] else version),
         Service = [], Edges = [], Metadata = Map.empty\<rparr>
      else if nodeType = NodeTypeService then
        \<lparr>ID = id', NodeType = nodeType, Namespace = namespace, Workload = [],
         App = [], Version = [], Service = service, Edges = [], Metadata = Map.empty\<rparr>
      else
        \<lparr>ID = id', NodeType = nodeType, Namespace = namespace, Workload = workload,
         App = app, Version = version, Service = service, Edges = [],
         Metadata = Map.empty\<rparr>)"

definition NewNode ::
  "string \<Rightarrow> string \<Rightarrow> string \<Rightarrow> string \<Rightarrow> string \<Rightarrow> string \<Rightarrow> error + 'f Node" where
  "NewNode namespace workload app version service graphType =
     (case Id namespace workload app version service graphType of
        Inl e \<Rightarrow> Inl e
      | Inr (id', nodeType) \<Rightarrow>
          Inr (NewNodeExplicit id' namespace workload app version service nodeType graphType))"

subsection \<open>The heap of nodes and edges, and \<open>AddEdge\<close>\<close>

text \<open>
  Nodes and edges are shared through pointers (a \<open>TrafficMap\<close> maps ids to \<open>*Node\<close>, a
  node holds \<open>[]*Edge\<close>, an edge points back to its source and on to its destination),
  so they live in an explicit store. \<open>nextEdge\<close> is the address the next allocated
  edge gets.
\<close>

record 'f heap =
  nodeAt :: "nat \<rightharpoonup> 'f Node"
  edgeAt :: "nat \<rightharpoonup> 'f Edge"
  nextEdge :: nat

definition nilDereference :: error where
  "nilDereference = Panic ''runtime error: invalid memory address or nil pointer dereference''"

definition NewEdge :: "ptr \<Rightarrow> ptr \<Rightarrow> 'f Edge" where
  "NewEdge source dest = \<lparr>Source = source, Dest = dest, EdgeMetadata = Map.empty\<rparr>"

text \<open>
  \<open>AddEdge\<close>: allocate the new edge, append its address to the edge list of the
  receiver, return the address. Reading \<open>s.Edges\<close> through a \<open>nil\<close> receiver panics;
  \<open>dest\<close> is stored without being read.
\<close>

definition AddEdge :: "'f heap \<Rightarrow> ptr \<Rightarrow> ptr \<Rightarrow> error + (nat \<times> 'f heap)" where
  "AddEdge h s dest =
     (case s of
        None \<Rightarrow> Inl nilDereference
      | Some sa \<Rightarrow>
          (case nodeAt h sa of
             None \<Rightarrow> Inl nilDereference
           | Some n \<Rightarrow>
               let e = NewEdge s dest; ea = nextEdge h
               in Inr (ea,
                    h\<lparr>nodeAt := (nodeAt h)(sa \<mapsto> n\<lparr>Edges := Edges n @ [Some ea]\<rparr>),
                      edgeAt := (edgeAt h)(ea \<mapsto> e),
                      nextEdge := Suc ea\<rparr>)))"

text \<open>
  A heap as the allocator leaves it: every allocated edge, and every edge address held
  by a node, lies below \<open>nextEdge\<close>.
\<close>

definition heap_ok :: "'f heap \<Rightarrow> bool" where
  "heap_ok h =
     ((\<forall>ea. ea \<in> dom (edgeAt h) \<longrightarrow> ea < nextEdge h)
      \<and> (\<forall>na n ea. nodeAt h na = Some n \<and> Some ea \<in> set (Edges n) \<longrightarrow> ea < nextEdge h))"

text \<open>
  The conditions of the identity scheme, named as the rules number them and written as
  the source writes them: rule 1 (the unknown source), rule 2 (the unknown service of
  a namespace), and "present and not the unknown sentinel" for a single field (every
  sentinel is the string \<open>"unknown"\<close>).
\<close>

definition unknownSourceRule :: "string \<Rightarrow> string \<Rightarrow> string \<Rightarrow> string \<Rightarrow> bool" where
  "unknownSourceRule namespace workload app service =
     (UnknownNamespace = namespace \<and> UnknownWorkload = workload \<and> UnknownApp = app
      \<and> [] = service)"

definition unknownServiceRule :: "string \<Rightarrow> string \<Rightarrow> string \<Rightarrow> bool" where
  "unknownServiceRule workload app service =
     (UnknownWorkload = workload \<and> UnknownApp = app \<and> UnknownService = service)"

definition resolves :: "string \<Rightarrow> bool" where
  "resolves field = (field \<noteq> [] \<and> field \<noteq> ''unknown'')"

text \<open>A heap with two workload nodes and no edge, used to run \<open>AddEdge\<close>.\<close>

definition twoNodeHeap :: "unit heap" where
  "twoNodeHeap =
     \<lparr>nodeAt = [0 \<mapsto> NewNodeExplicit ''wl_ns_a'' ''ns'' ''a'' [] [] [] NodeTypeWorkload
                       GraphTypeWorkload,
                1 \<mapsto> NewNodeExplicit ''wl_ns_b'' ''ns'' ''b'' [] [] [] NodeTypeWorkload
                       GraphTypeWorkload],
      edgeAt = Map.empty, nextEdge = 0\<rparr>"

section \<open>Options resolver (package options)\<close>

definition AppenderAll :: string where "AppenderAll = ''_all_''"
definition GroupByVersion :: string where "GroupByVersion = ''version''"

subsection \<open>Time and durations\<close>

text \<open>
  A \<open>time.Duration\<close> is a signed 64-bit count of nanoseconds; a \<open>time.Time\<close> without
  monotonic clock reading is an instant, held as the seconds elapsed since January 1,
  year 1 00:00:00 UTC (a signed 64-bit count) and the nanoseconds within the second.
\<close>

type_synonym Duration = int

definition minDuration :: Duration where "minDuration = - (2 ^ 63)"
definition maxDuration :: Duration where "maxDuration = 2 ^ 63 - 1"
definition Second :: Duration where "Second = 1000000000"
definition Minute :: Duration where "Minute = 60 * Second"

record Time =
  sec :: int
  nsec :: int

text \<open>Signed 64-bit wrap-around of an integer.\<close>

definition wrap64 :: "int \<Rightarrow> int" where
  "wrap64 x = (x + 2 ^ 63) mod 2 ^ 64 - 2 ^ 63"

text \<open>The seconds from January 1, year 1 to January 1, 1970.\<close>

definition unixToInternal :: int where "unixToInternal = 62135596800"

text \<open>
  \<open>time.Unix(sec, 0)\<close>: the instant \<open>sec\<close> seconds after January 1, 1970 UTC; the
  library adds \<open>unixToInternal\<close> in 64-bit arithmetic.
\<close>

definition Unix :: "int \<Rightarrow> Time" where
  "Unix s = \<lparr>sec = wrap64 (s + unixToInternal), nsec = 0\<rparr>"

definition IsZero :: "Time \<Rightarrow> bool" where
  "IsZero t = (sec t = 0 \<and> nsec t = 0)"

text \<open>
  \<open>t.Sub(u)\<close>, as the library documents it: the duration \<open>t - u\<close>; if the result
  exceeds the maximum (or minimum) value that can be stored in a \<open>Duration\<close>, the
  maximum (or minimum) duration is returned.
\<close>

definition Sub :: "Time \<Rightarrow> Time \<Rightarrow> Duration" where
  "Sub t u =
     (let d = (sec t - sec u) * Second + (nsec t - nsec u)
      in if d < minDuration then minDuration
         else if maxDuration < d then maxDuration
         else d)"

text \<open>
  \<open>resolveNamespaceDuration\<close>. The reading of the clock, \<open>time.Now()\<close>, is the
  parameter \<open>now\<close>.
\<close>

definition resolveNamespaceDuration :: "Time \<Rightarrow> Time \<Rightarrow> Duration \<Rightarrow> int \<Rightarrow> Duration" where
  "resolveNamespaceDuration now nsCreationTime requestedRange queryTime =
     (if \<not> IsZero nsCreationTime then
        let referenceTime = (if queryTime \<noteq> 0 then Unix queryTime else now);
            nsLifetime = Sub referenceTime nsCreationTime
        in if nsLifetime < requestedRange then nsLifetime else requestedRange
      else requestedRange)"

subsection \<open>Appender selection\<close>

record NamespaceInfo =
  Name :: string
  NsDuration :: Duration

text \<open>
  The appenders (package appender), each with the fields \<open>parseAppenders\<close> sets.
\<close>

datatype 'f Appender =
    DeadNodeAppender
  | ResponseTimeAppender 'f string bool bool "string \<rightharpoonup> NamespaceInfo" int
  | SecurityPolicyAppender string bool "string \<rightharpoonup> NamespaceInfo" int
  | UnusedNodeAppender string bool
  | IstioAppender
  | SidecarsCheckAppender

text \<open>
  The fields of \<open>Options\<close> that \<open>parseAppenders\<close> reads (\<open>App\<close>, \<open>Service\<close>,
  \<open>Workload\<close> of the embedded \<open>NodeOptions\<close>, \<open>GraphType\<close> of the embedded
  \<open>VendorOptions\<close>).
\<close>

record Options =
  IncludeIstio :: bool
  InjectServiceNodes :: bool
  Namespaces :: "string \<rightharpoonup> NamespaceInfo"
  QueryTime :: int
  optApp :: string
  optService :: string
  optVersion :: string
  optWorkload :: string
  optGraphType :: string
  optGroupBy :: string
  optTimestamp :: int

text \<open>
  What \<open>parseAppenders\<close> takes from outside the sources at hand: the name constants
  and the default quantile of package appender, and the library functions
  \<open>strings.ToLower\<close> and \<open>strconv.ParseFloat\<close>.
\<close>

record 'f appenderEnv =
  DeadNodeAppenderName :: string
  ResponseTimeAppenderName :: string
  SecurityPolicyAppenderName :: string
  UnusedNodeAppenderName :: string
  IstioAppenderName :: string
  SidecarsCheckAppenderName :: string
  DefaultQuantile :: 'f
  ToLower :: "string \<Rightarrow> string"
  ParseFloat :: "string \<Rightarrow> 'f option"

text \<open>\<open>url.Values\<close> is \<open>map[string][]string\<close>; \<open>Get\<close> returns the first value of a key, or the empty string.\<close>

type_synonym Values = "string \<rightharpoonup> string list"

definition Get :: "Values \<Rightarrow> string \<Rightarrow> string" where
  "Get params key =
     (case params key of
        None \<Rightarrow> []
      | Some vs \<Rightarrow> (case vs of [] \<Rightarrow> [] | v # _ \<Rightarrow> v))"

text \<open>\<open>strings.Contains(s, substr)\<close>: \<open>substr\<close> occurs in \<open>s\<close> as a contiguous block.\<close>

fun Contains :: "string \<Rightarrow> string \<Rightarrow> bool" where
  "Contains [] substr = (substr = [])"
| "Contains (c # s) substr = (prefix substr (c # s) \<or> Contains s substr)"

definition parseAppenders :: "'f appenderEnv \<Rightarrow> Values \<Rightarrow> Options \<Rightarrow> 'f Appender list" where
  "parseAppenders env params opts =
     (let csl = (if params ''appenders'' \<noteq> None
                 then ToLower env (Get params ''appenders'') else AppenderAll);
          a1 = (if csl = AppenderAll \<or> Contains csl (DeadNodeAppenderName env)
                   \<or> Contains csl ''dead_node''
                then [DeadNodeAppender] else []);
          a2 = (if csl = AppenderAll \<or> Contains csl (ResponseTimeAppenderName env)
                   \<or> Contains csl ''response_time''
                then
                  let quantile =
                        (if params ''responseTimeQuantile'' \<noteq> None
                         then (case ParseFloat env (Get params ''responseTimeQuantile'') of
                                 Some responseTimeQuantile \<Rightarrow> responseTimeQuantile
                               | None \<Rightarrow> DefaultQuantile env)
                         else DefaultQuantile env)
                  in [ResponseTimeAppender quantile (optGraphType opts) (InjectServiceNodes opts)
                        (IncludeIstio opts) (Namespaces opts) (QueryTime opts)]
                else []);
          a3 = (if csl = AppenderAll \<or> Contains csl (SecurityPolicyAppenderName env)
                   \<or> Contains csl ''security_policy''
                then [SecurityPolicyAppender (optGraphType opts) (IncludeIstio opts) (Namespaces opts)
                        (QueryTime opts)]
                else []);
          a4 = (if csl = AppenderAll \<or> Contains csl (UnusedNodeAppenderName env)
                   \<or> Contains csl ''unused_node''
                then
                  let hasNodeOptions =
                        (optApp opts \<noteq> [] \<or> optWorkload opts \<noteq> [] \<or> optService opts \<noteq> [])
                  in [UnusedNodeAppender (optGraphType opts) hasNodeOptions]
                else []);
          a5 = (if csl = AppenderAll \<or> Contains csl (IstioAppenderName env)
                   \<or> Contains csl ''istio''
                then [IstioAppender] else []);
          a6 = (if csl = AppenderAll \<or> Contains csl (SidecarsCheckAppenderName env)
                   \<or> Contains csl ''sidecars_check''
                then [SidecarsCheckAppender] else [])
      in a1 @ a2 @ a3 @ a4 @ a5 @ a6)"

text \<open>The pipeline stages by kind, and the fixed order of the pipeline.\<close>

datatype AppenderKind =
  DeadNode | ResponseTime | SecurityPolicy | UnusedNode | Istio | SidecarsCheck

fun kindOf :: "'f Appender \<Rightarrow> AppenderKind" where
  "kindOf DeadNodeAppender = DeadNode"
| "kindOf (ResponseTimeAppender q g i s n t) = ResponseTime"
| "kindOf (SecurityPolicyAppender g s n t) = SecurityPolicy"
| "kindOf (UnusedNodeAppender g b) = UnusedNode"
| "kindOf IstioAppender = Istio"
| "kindOf SidecarsCheckAppender = SidecarsCheck"

definition fixedOrder :: "AppenderKind list" where
  "fixedOrder = [DeadNode, ResponseTime, SecurityPolicy, UnusedNode, Istio, SidecarsCheck]"

text \<open>
  An environment to run \<open>parseAppenders\<close> in: the appender names as package appender
  declares them, and lower-casing of the ASCII letters.
\<close>

definition asciiToLower :: "string \<Rightarrow> string" where
  "asciiToLower s =
     map (\<lambda>c. if CHR ''A'' \<le> c \<and> c \<le> CHR ''Z'' then char_of (of_char c + (32::nat)) else c) s"

definition sampleEnv :: "rat appenderEnv" where
  "sampleEnv =
     \<lparr>DeadNodeAppenderName = ''deadNode'',
      ResponseTimeAppenderName = ''responseTime'',
      SecurityPolicyAppenderName = ''securityPolicy'',
      UnusedNodeAppenderName = ''unusedNode'',
      IstioAppenderName = ''istio'',
      SidecarsCheckAppenderName = ''sidecarsCheck'',
      DefaultQuantile = 95 / 100,
      ToLower = asciiToLower,
      ParseFloat = (\<lambda>s. None)\<rparr>"

definition sampleOptions :: Options where
  "sampleOptions =
     \<lparr>IncludeIstio = False, InjectServiceNodes = False, Namespaces = Map.empty,
      QueryTime = 1500000600, optApp = [], optService = [], optVersion = [],
      optWorkload = [], optGraphType = GraphTypeVersionedApp, optGroupBy = GroupByVersion,
      optTimestamp = 1500000600\<rparr>"

section \<open>Vendor serializer (package cytoscape)\<close>

record NodeData =
  ndId :: string
  ndParent :: string
  ndNodeType :: string
  ndNamespace :: string
  ndWorkload :: string
  ndApp :: string
  ndVersion :: string
  ndService :: string
  ndDestServices :: "(string \<rightharpoonup> bool) option"
  ndRate :: string
  ndRate3xx :: string
  ndRate4xx :: string
  ndRate5xx :: string
  ndRateOut :: string
  ndRateTcpSent :: string
  ndRateTcpSentOut :: string
  ndHasCB :: bool
  ndHasMissingSC :: bool
  ndHasVS :: bool
  ndIsDead :: bool
  ndIsEgress :: bool
  ndIsGroup :: string
  ndIsInaccessible :: bool
  ndIsMisconfigured :: string
  ndIsOutside :: bool
  ndIsRoot :: bool
  ndIsUnused :: bool

record EdgeData =
  edId :: string
  edSource :: string
  edTarget :: string
  edRate :: string
  edRate3xx :: string
  edRate4xx :: string
  edRate5xx :: string
  edPercentErr :: string
  edPercentRate :: string
  edResponseTime :: string
  edIsMTLS :: bool
  edIsUnused :: bool
  edTcpSentRate :: string

record Elements =
  elNodes :: "NodeData list"
  elEdges :: "EdgeData list"

record Config =
  cfgTimestamp :: int
  cfgGraphType :: string
  cfgElements :: Elements

record VendorOptions =
  GraphType :: string
  GroupBy :: string
  Timestamp :: int

text \<open>
  What the serializer takes from the Go runtime and library: the \<open>float64\<close>
  operations it uses (the constants \<open>0.0\<close> and \<open>100.0\<close>, \<open>+\<close>, \<open>/\<close>, \<open>*\<close>, \<open><\<close>, and
  \<open>fmt.Sprintf("%.2f", x)\<close>), the hexadecimal MD5 digest of a string
  (\<open>fmt.Sprintf("%x", md5.Sum([]byte(s)))\<close>), and \<open>sort.Slice\<close> on the node and on the
  edge slice.
\<close>

record 'f runtime =
  fzero :: 'f
  fhundred :: 'f
  fadd :: "'f \<Rightarrow> 'f \<Rightarrow> 'f"
  fdiv :: "'f \<Rightarrow> 'f \<Rightarrow> 'f"
  fmul :: "'f \<Rightarrow> 'f \<Rightarrow> 'f"
  fless :: "'f \<Rightarrow> 'f \<Rightarrow> bool"
  format2 :: "'f \<Rightarrow> string"
  md5hex :: "string \<Rightarrow> string"
  sortNodes :: "(NodeData \<Rightarrow> NodeData \<Rightarrow> bool) \<Rightarrow> NodeData list \<Rightarrow> NodeData list"
  sortEdges :: "(EdgeData \<Rightarrow> EdgeData \<Rightarrow> bool) \<Rightarrow> EdgeData list \<Rightarrow> EdgeData list"

definition nodeHash :: "'f runtime \<Rightarrow> string \<Rightarrow> string" where
  "nodeHash rt id' = md5hex rt id'"

definition edgeHash :: "'f runtime \<Rightarrow> string \<Rightarrow> string \<Rightarrow> string \<Rightarrow> string" where
  "edgeHash rt from to protocol = md5hex rt (from @ ''.'' @ to @ ''.'' @ protocol)"

text \<open>A failed type assertion \<open>val.(T)\<close> panics.\<close>

definition typeAssertion :: error where
  "typeAssertion = Panic ''interface conversion: interface {} is not of the asserted type''"

definition bindE :: "error + 'a \<Rightarrow> ('a \<Rightarrow> error + 'b) \<Rightarrow> error + 'b" where
  "bindE m f = (case m of Inl e \<Rightarrow> Inl e | Inr x \<Rightarrow> f x)"

definition getRate :: "'f runtime \<Rightarrow> (string \<rightharpoonup> 'f val) \<Rightarrow> string \<Rightarrow> error + 'f" where
  "getRate rt md k =
     (case md k of
        None \<Rightarrow> Inr (fzero rt)
      | Some (VFloat rate) \<Rightarrow> Inr rate
      | Some _ \<Rightarrow> Inl typeAssertion)"

text \<open>
  \<open>if val, ok := md[k]; ok { field = val.(bool) }\<close>: the field keeps its value when the
  key is absent. Likewise for \<open>string\<close> and \<open>map[string]bool\<close>.
\<close>

definition getBool :: "(string \<rightharpoonup> 'f val) \<Rightarrow> string \<Rightarrow> bool \<Rightarrow> error + bool" where
  "getBool md k old =
     (case md k of
        None \<Rightarrow> Inr old
      | Some (VBool b) \<Rightarrow> Inr b
      | Some _ \<Rightarrow> Inl typeAssertion)"

definition getString :: "(string \<rightharpoonup> 'f val) \<Rightarrow> string \<Rightarrow> string \<Rightarrow> error + string" where
  "getString md k old =
     (case md k of
        None \<Rightarrow> Inr old
      | Some (VString s) \<Rightarrow> Inr s
      | Some _ \<Rightarrow> Inl typeAssertion)"

definition getBoolMap ::
  "(string \<rightharpoonup> 'f val) \<Rightarrow> string \<Rightarrow> (string \<rightharpoonup> bool) option
     \<Rightarrow> error + (string \<rightharpoonup> bool) option" where
  "getBoolMap md k old =
     (case md k of
        None \<Rightarrow> Inr old
      | Some (VBoolMap m) \<Rightarrow> Inr (Some m)
      | Some _ \<Rightarrow> Inl typeAssertion)"

text \<open>\<open>if x > 0.0 { field = fmt.Sprintf("%.2f", x) }\<close>\<close>

definition fmtIfPositive :: "'f runtime \<Rightarrow> 'f \<Rightarrow> string \<Rightarrow> string" where
  "fmtIfPositive rt x old = (if fless rt (fzero rt) x then format2 rt x else old)"

definition addNodeTelemetry :: "'f runtime \<Rightarrow> 'f Node \<Rightarrow> NodeData \<Rightarrow> error + NodeData" where
  "addNodeTelemetry rt s nd =
     bindE (getRate rt (Metadata s) ''rate'') (\<lambda>rate.
     bindE (if fless rt (fzero rt) rate
            then
              bindE (getRate rt (Metadata s) ''rate3xx'') (\<lambda>rate3xx.
              bindE (getRate rt (Metadata s) ''rate4xx'') (\<lambda>rate4xx.
              bindE (getRate rt (Metadata s) ''rate5xx'') (\<lambda>rate5xx.
              Inr (nd\<lparr>ndRate := format2 rt rate,
                      ndRate3xx := fmtIfPositive rt rate3xx (ndRate3xx nd),
                      ndRate4xx := fmtIfPositive rt rate4xx (ndRate4xx nd),
                      ndRate5xx := fmtIfPositive rt rate5xx (ndRate5xx nd)\<rparr>))))
            else Inr nd) (\<lambda>nd1.
     bindE (getRate rt (Metadata s) ''rateOut'') (\<lambda>rateOut.
     bindE (getRate rt (Metadata s) ''tcpSentRate'') (\<lambda>tcpSent.
     bindE (getRate rt (Metadata s) ''tcpSentRateOut'') (\<lambda>tcpSentOut.
     Inr (nd1\<lparr>ndRateOut := fmtIfPositive rt rateOut (ndRateOut nd1),
              ndRateTcpSent := fmtIfPositive rt tcpSent (ndRateTcpSent nd1),
              ndRateTcpSentOut := fmtIfPositive rt tcpSentOut (ndRateTcpSentOut nd1)\<rparr>))))))"

text \<open>
  \<open>addEdgeTelemetry\<close>. The edge data \<open>ed\<close> is updated in place in the source; here the
  updated value is returned. Reading \<open>e.Source.Metadata\<close> dereferences the source
  pointer of the edge in the heap.
\<close>

definition sourceMetadata :: "'f heap \<Rightarrow> 'f Edge \<Rightarrow> error + (string \<rightharpoonup> 'f val)" where
  "sourceMetadata h e =
     (case Source e of
        None \<Rightarrow> Inl nilDereference
      | Some sa \<Rightarrow>
          (case nodeAt h sa of None \<Rightarrow> Inl nilDereference | Some s \<Rightarrow> Inr (Metadata s)))"

definition addEdgeTelemetry ::
  "'f runtime \<Rightarrow> 'f heap \<Rightarrow> EdgeData \<Rightarrow> 'f Edge \<Rightarrow> error + EdgeData" where
  "addEdgeTelemetry rt h ed e =
     bindE (getRate rt (EdgeMetadata e) ''rate'') (\<lambda>rate.
     bindE (if fless rt (fzero rt) rate
            then
              bindE (getRate rt (EdgeMetadata e) ''rate3xx'') (\<lambda>rate3xx.
              bindE (getRate rt (EdgeMetadata e) ''rate4xx'') (\<lambda>rate4xx.
              bindE (getRate rt (EdgeMetadata e) ''rate5xx'') (\<lambda>rate5xx.
              let rateErr = fadd rt rate4xx rate5xx;
                  percentErr = fmul rt (fdiv rt rateErr rate) (fhundred rt);
                  ed1 = ed\<lparr>edRate := format2 rt rate,
                           edRate3xx := fmtIfPositive rt rate3xx (edRate3xx ed),
                           edRate4xx := fmtIfPositive rt rate4xx (edRate4xx ed),
                           edRate5xx := fmtIfPositive rt rate5xx (edRate5xx ed),
                           edPercentErr := fmtIfPositive rt percentErr (edPercentErr ed)\<rparr>
              in
              bindE (case EdgeMetadata e ''responseTime'' of
                       None \<Rightarrow> Inr ed1
                     | Some (VFloat responseTime) \<Rightarrow>
                         Inr (ed1\<lparr>edResponseTime := format2 rt responseTime\<rparr>)
                     | Some _ \<Rightarrow> Inl typeAssertion) (\<lambda>ed2.
              bindE (sourceMetadata h e) (\<lambda>smd.
              bindE (getRate rt smd ''rateOut'') (\<lambda>rateOut.
              let percentRate = fmul rt (fdiv rt rate rateOut) (fhundred rt)
              in Inr (if fless rt percentRate (fhundred rt)
                      then ed2\<lparr>edPercentRate := format2 rt percentRate\<rparr>
                      else ed2)))))))
            else
              bindE (sourceMetadata h e) (\<lambda>smd.
              bindE (getBool smd ''isUnused'' (edIsUnused ed)) (\<lambda>b.
              Inr (ed\<lparr>edIsUnused := b\<rparr>)))) (\<lambda>ed3.
     bindE (getBool (EdgeMetadata e) ''isMTLS'' (edIsMTLS ed3)) (\<lambda>isMTLS.
     bindE (getRate rt (EdgeMetadata e) ''tcpSentRate'') (\<lambda>tcpSentRate.
     Inr (ed3\<lparr>edIsMTLS := isMTLS,
              edTcpSentRate := fmtIfPositive rt tcpSentRate (edTcpSentRate ed3)\<rparr>)))))"

text \<open>
  The body of the loop of \<open>buildConfig\<close> for one entry \<open>(id, n)\<close> of the traffic map:
  the node data first, then one edge data for each edge of the node.
\<close>

definition buildNode :: "'f runtime \<Rightarrow> string \<Rightarrow> 'f Node \<Rightarrow> error + NodeData" where
  "buildNode rt id' n =
     (let nodeId = nodeHash rt id';
          nd = \<lparr>ndId = nodeId, ndParent = [], ndNodeType = NodeType n,
                ndNamespace = Namespace n, ndWorkload = Workload n, ndApp = App n,
                ndVersion = Version n, ndService = Service n, ndDestServices = None,
                ndRate = [], ndRate3xx = [], ndRate4xx = [], ndRate5xx = [],
                ndRateOut = [], ndRateTcpSent = [], ndRateTcpSentOut = [],
                ndHasCB = False, ndHasMissingSC = False, ndHasVS = False, ndIsDead = False,
                ndIsEgress = False, ndIsGroup = [], ndIsInaccessible = False,
                ndIsMisconfigured = [], ndIsOutside = False, ndIsRoot = False,
                ndIsUnused = False\<rparr>
      in
      bindE (addNodeTelemetry rt n nd) (\<lambda>nd.
      bindE (getBool (Metadata n) ''isDead'' (ndIsDead nd)) (\<lambda>isDead.
      bindE (getBool (Metadata n) ''isRoot'' (ndIsRoot nd)) (\<lambda>isRoot.
      bindE (getBool (Metadata n) ''isUnused'' (ndIsUnused nd)) (\<lambda>isUnused.
      bindE (getBool (Metadata n) ''isInaccessible'' (ndIsInaccessible nd)) (\<lambda>isInaccessible.
      bindE (getBool (Metadata n) ''hasCB'' (ndHasCB nd)) (\<lambda>hasCB.
      bindE (getBool (Metadata n) ''hasVS'' (ndHasVS nd)) (\<lambda>hasVS.
      bindE (getBool (Metadata n) ''hasMissingSC'' (ndHasMissingSC nd)) (\<lambda>hasMissingSC.
      bindE (getString (Metadata n) ''isMisconfigured'' (ndIsMisconfigured nd)) (\<lambda>isMisconfigured.
      bindE (getBool (Metadata n) ''isOutside'' (ndIsOutside nd)) (\<lambda>isOutside.
      bindE (getBoolMap (Metadata n) ''destServices'' (ndDestServices nd)) (\<lambda>destServices.
      bindE (getBool (Metadata n) ''isEgress'' (ndIsEgress nd)) (\<lambda>isEgress.
      Inr (nd\<lparr>ndIsDead := isDead, ndIsRoot := isRoot, ndIsUnused := isUnused,
              ndIsInaccessible := isInaccessible, ndHasCB := hasCB, ndHasVS := hasVS,
              ndHasMissingSC := hasMissingSC, ndIsMisconfigured := isMisconfigured,
              ndIsOutside := isOutside, ndDestServices := destServices,
              ndIsEgress := isEgress\<rparr>))))))))))))))"

definition buildEdge :: "'f runtime \<Rightarrow> 'f heap \<Rightarrow> 'f Node \<Rightarrow> ptr \<Rightarrow> error + EdgeData" where
  "buildEdge rt h n ep =
     (case ep of
        None \<Rightarrow> Inl nilDereference
      | Some ea \<Rightarrow>
          (case edgeAt h ea of
             None \<Rightarrow> Inl nilDereference
           | Some e \<Rightarrow>
               let sourceIdHash = nodeHash rt (ID n)
               in (case Dest e of
                     None \<Rightarrow> Inl nilDereference
                   | Some da \<Rightarrow>
                       (case nodeAt h da of
                          None \<Rightarrow> Inl nilDereference
                        | Some d \<Rightarrow>
                            let destIdHash = nodeHash rt (ID d)
                            in bindE (case EdgeMetadata e ''protocol'' of
                                        None \<Rightarrow> Inr []
                                      | Some VNil \<Rightarrow> Inr []
                                      | Some (VString s) \<Rightarrow> Inr s
                                      | Some _ \<Rightarrow> Inl typeAssertion) (\<lambda>protocol.
                               let edgeId = edgeHash rt sourceIdHash destIdHash protocol;
                                   ed = \<lparr>edId = edgeId, edSource = sourceIdHash,
                                         edTarget = destIdHash, edRate = [], edRate3xx = [],
                                         edRate4xx = [], edRate5xx = [], edPercentErr = [],
                                         edPercentRate = [], edResponseTime = [],
                                         edIsMTLS = False, edIsUnused = False,
                                         edTcpSentRate = []\<rparr>
                               in addEdgeTelemetry rt h ed e)))))"

fun mapE :: "('a \<Rightarrow> error + 'b) \<Rightarrow> 'a list \<Rightarrow> error + 'b list" where
  "mapE f [] = Inr []"
| "mapE f (x # xs) = bindE (f x) (\<lambda>y. bindE (mapE f xs) (\<lambda>ys. Inr (y # ys)))"

definition buildEntry ::
  "'f runtime \<Rightarrow> 'f heap \<Rightarrow> string \<times> ptr \<Rightarrow> error + (NodeData \<times> EdgeData list)" where
  "buildEntry rt h entry =
     (case snd entry of
        None \<Rightarrow> Inl nilDereference
      | Some na \<Rightarrow>
          (case nodeAt h na of
             None \<Rightarrow> Inl nilDereference
           | Some n \<Rightarrow>
               bindE (buildNode rt (fst entry) n) (\<lambda>nd.
               bindE (mapE (buildEdge rt h n) (Edges n)) (\<lambda>eds.
               Inr (nd, eds)))))"

text \<open>
  \<open>buildConfig\<close>. A \<open>TrafficMap\<close> is given as the list of its entries in the order in
  which \<open>range\<close> visits them (Go leaves this order unspecified); the nodes and edges
  are appended to the two slices passed in.
\<close>

type_synonym TrafficMap = "(string \<times> ptr) list"

fun buildConfig ::
  "'f runtime \<Rightarrow> 'f heap \<Rightarrow> TrafficMap \<Rightarrow> NodeData list \<Rightarrow> EdgeData list
     \<Rightarrow> error + (NodeData list \<times> EdgeData list)" where
  "buildConfig rt h [] nodes edges = Inr (nodes, edges)"
| "buildConfig rt h (entry # trafficMap) nodes edges =
     bindE (buildEntry rt h entry) (\<lambda>r.
     buildConfig rt h trafficMap (nodes @ [fst r]) (edges @ snd r))"

subsection \<open>Compound nodes\<close>

definition boxKey :: "NodeData \<Rightarrow> string" where
  "boxKey nd = ''box_'' @ ndNamespace nd @ ''_'' @ ndApp nd"

text \<open>
  The first loop of \<open>groupByVersion\<close>: \<open>grouped\<close> maps a key to its members. A member
  is a pointer to a node data of the slice; here it is the position of that node data
  in the slice (\<open>i\<close> is the position of the head of the list still to visit).
\<close>

fun groupMembers ::
  "NodeData list \<Rightarrow> nat \<Rightarrow> (string \<rightharpoonup> nat list) \<Rightarrow> (string \<rightharpoonup> nat list)" where
  "groupMembers [] i grouped = grouped"
| "groupMembers (nd # nds) i grouped =
     groupMembers nds (Suc i)
       (if ndNodeType nd = NodeTypeApp
        then (let k = boxKey nd
              in grouped(k \<mapsto> (case grouped k of None \<Rightarrow> [] | Some ms \<Rightarrow> ms) @ [i]))
        else grouped)"

text \<open>
  The inner loop over the members of one key: set the parent of the member, and
  accumulate three of its flags in the compound node \<open>nd\<close>.
\<close>

definition boxMember ::
  "string \<Rightarrow> NodeData list \<times> NodeData \<Rightarrow> nat \<Rightarrow> NodeData list \<times> NodeData" where
  "boxMember nodeId acc i =
     (let nodes = (fst acc)[i := (fst acc ! i)\<lparr>ndParent := nodeId\<rparr>];
          n = nodes ! i;
          nd = snd acc
      in (nodes,
          nd\<lparr>ndHasMissingSC := ndHasMissingSC nd \<or> ndHasMissingSC n,
             ndIsInaccessible := ndIsInaccessible nd \<or> ndIsInaccessible n,
             ndIsOutside := ndIsOutside nd \<or> ndIsOutside n\<rparr>))"

text \<open>The body of the second loop for a key with more than one member.\<close>

definition addBox :: "'f runtime \<Rightarrow> string \<Rightarrow> nat list \<Rightarrow> NodeData list \<Rightarrow> NodeData list" where
  "addBox rt k members nodes =
     (let nodeId = nodeHash rt k;
          nd = \<lparr>ndId = nodeId, ndParent = [], ndNodeType = NodeTypeApp,
                ndNamespace = ndNamespace (nodes ! (members ! 0)), ndWorkload = [],
                ndApp = ndApp (nodes ! (members ! 0)),
                ndVersion = [], ndService = [], ndDestServices = None,
                ndRate = [], ndRate3xx = [], ndRate4xx = [], ndRate5xx = [],
                ndRateOut = [], ndRateTcpSent = [], ndRateTcpSentOut = [],
                ndHasCB = False, ndHasMissingSC = False, ndHasVS = False, ndIsDead = False,
                ndIsEgress = False, ndIsGroup = GroupByVersion, ndIsInaccessible = False,
                ndIsMisconfigured = [], ndIsOutside = False, ndIsRoot = False,
                ndIsUnused = False\<rparr>;
          acc = foldl (boxMember nodeId) (nodes, nd) members
      in fst acc @ [snd acc])"

text \<open>
  The second loop, over the keys of \<open>grouped\<close> in the order \<open>ks\<close> in which \<open>range\<close>
  visits them.
\<close>

fun groupLoop ::
  "'f runtime \<Rightarrow> (string \<rightharpoonup> nat list) \<Rightarrow> string list \<Rightarrow> NodeData list \<Rightarrow> NodeData list"
  where
  "groupLoop rt grouped [] nodes = nodes"
| "groupLoop rt grouped (k # ks) nodes =
     (case grouped k of
        None \<Rightarrow> groupLoop rt grouped ks nodes
      | Some members \<Rightarrow>
          groupLoop rt grouped ks
            (if 1 < length members then addBox rt k members nodes else nodes))"

definition groupByVersion :: "'f runtime \<Rightarrow> string list \<Rightarrow> NodeData list \<Rightarrow> NodeData list" where
  "groupByVersion rt ks nodes = groupLoop rt (groupMembers nodes 0 Map.empty) ks nodes"

text \<open>
  An order \<open>ks\<close> is an iteration order of \<open>grouped\<close> when it lists every key of the map
  once.
\<close>

definition keyOrder :: "string list \<Rightarrow> NodeData list \<Rightarrow> bool" where
  "keyOrder ks nodes =
     (distinct ks \<and> set ks = dom (groupMembers nodes 0 Map.empty))"

subsection \<open>The document\<close>

text \<open>The two \<open>less\<close> functions passed to \<open>sort.Slice\<close>; strings compare bytewise.\<close>

definition nodeLess :: "NodeData \<Rightarrow> NodeData \<Rightarrow> bool" where
  "nodeLess a b =
     (if ndNamespace a \<noteq> ndNamespace b then ndNamespace a < ndNamespace b
      else if ndIsGroup a \<noteq> ndIsGroup b then ndIsGroup a > ndIsGroup b
      else if ndApp a \<noteq> ndApp b then ndApp a < ndApp b
      else if ndVersion a \<noteq> ndVersion b then ndVersion a < ndVersion b
      else if ndService a \<noteq> ndService b then ndService a < ndService b
      else ndWorkload a < ndWorkload b)"

definition edgeLess :: "EdgeData \<Rightarrow> EdgeData \<Rightarrow> bool" where
  "edgeLess a b =
     (if edSource a < edSource b then True
      else if edSource a > edSource b then False
      else edTarget a < edTarget b)"

definition NewConfig ::
  "'f runtime \<Rightarrow> 'f heap \<Rightarrow> TrafficMap \<Rightarrow> string list \<Rightarrow> VendorOptions \<Rightarrow> error + Config" where
  "NewConfig rt h trafficMap ks opts =
     bindE (buildConfig rt h trafficMap [] []) (\<lambda>built.
     let nodes = (if GraphType opts = GraphTypeVersionedApp \<and> GroupBy opts = GroupByVersion
                  then groupByVersion rt ks (fst built) else fst built);
         nodes' = sortNodes rt nodeLess nodes;
         edges' = sortEdges rt edgeLess (snd built)
     in Inr \<lparr>cfgTimestamp = Timestamp opts, cfgGraphType = GraphType opts,
             cfgElements = \<lparr>elNodes = nodes', elEdges = edges'\<rparr>\<rparr>)"

section \<open>A runtime to evaluate the serializer\<close>

text \<open>
  Insertion sort with a comparison function, standing in for \<open>sort.Slice\<close>.
\<close>

fun insertBy :: "('a \<Rightarrow> 'a \<Rightarrow> bool) \<Rightarrow> 'a \<Rightarrow> 'a list \<Rightarrow> 'a list" where
  "insertBy lt x [] = [x]"
| "insertBy lt x (y # ys) = (if lt x y then x # y # ys else y # insertBy lt x ys)"

fun insertionSort :: "('a \<Rightarrow> 'a \<Rightarrow> bool) \<Rightarrow> 'a list \<Rightarrow> 'a list" where
  "insertionSort lt [] = []"
| "insertionSort lt (x # xs) = insertBy lt x (insertionSort lt xs)"

text \<open>Decimal digits of a natural number, and a rational number with two decimals.\<close>

definition digitChar :: "nat \<Rightarrow> char" where
  "digitChar d = char_of (48 + d)"

fun natString :: "nat \<Rightarrow> string" where
  "natString n = (if n < 10 then [digitChar n] else natString (n div 10) @ [digitChar (n mod 10)])"

definition fixed2 :: "rat \<Rightarrow> string" where
  "fixed2 q =
     (let c = nat \<lfloor>\<bar>q\<bar> * 100 + 1 / 2\<rfloor>
      in (if q < 0 then ''-'' else []) @ natString (c div 100) @ ''.''
           @ [digitChar (c mod 100 div 10), digitChar (c mod 10)])"

text \<open>
  \<open>exactRuntime\<close> computes with exact rational numbers in place of \<open>float64\<close> (no
  rounding, and no infinities: a division by zero yields zero here), uses the string
  itself as its digest, and sorts by insertion.
\<close>

definition exactRuntime :: "rat runtime" where
  "exactRuntime =
     \<lparr>fzero = 0, fhundred = 100, fadd = (+), fdiv = (/), fmul = (*), fless = (<),
      format2 = fixed2, md5hex = (\<lambda>s. s),
      sortNodes = insertionSort, sortEdges = insertionSort\<rparr>"

text \<open>
  A heap with a source node \<open>a\<close> of outbound rate 10 and a destination \<open>b\<close>, and two
  edges from \<open>a\<close> to \<open>b\<close>: one of rate 5, one of rate 10.
\<close>

definition rateHeap :: "rat heap" where
  "rateHeap =
     \<lparr>nodeAt = [0 \<mapsto> (NewNodeExplicit ''wl_ns_a'' ''ns'' ''a'' [] [] [] NodeTypeWorkload
                        GraphTypeWorkload)\<lparr>Edges := [Some 0, Some 1],
                                            Metadata := [''rateOut'' \<mapsto> VFloat 10]\<rparr>,
                1 \<mapsto> NewNodeExplicit ''wl_ns_b'' ''ns'' ''b'' [] [] [] NodeTypeWorkload
                       GraphTypeWorkload],
      edgeAt = [0 \<mapsto> \<lparr>Source = Some 0, Dest = Some 1,
                        EdgeMetadata = [''rate'' \<mapsto> VFloat 5]\<rparr>,
                1 \<mapsto> \<lparr>Source = Some 0, Dest = Some 1,
                        EdgeMetadata = [''rate'' \<mapsto> VFloat 10]\<rparr>],
      nextEdge = 2\<rparr>"

section \<open>The identity function\<close>

lemmas graph_consts =
  GraphTypeApp_def GraphTypeService_def GraphTypeVersionedApp_def GraphTypeWorkload_def
  NodeTypeApp_def NodeTypeService_def NodeTypeUnknown_def NodeTypeWorkload_def
  UnknownApp_def UnknownNamespace_def UnknownService_def UnknownVersion_def
  UnknownWorkload_def

text \<open>The definition of \<open>Id\<close> with its conditions folded into the named rules.\<close>

lemma Id_unfold:
  "Id namespace workload app version service graphType =
     (if unknownSourceRule namespace workload app service
      then Inr (''unknown_source'', NodeTypeUnknown)
      else if unknownServiceRule workload app service
      then Inr (''svc_'' @ namespace @ ''_unknown'', NodeTypeService)
      else if \<not> resolves workload \<and> \<not> resolves app \<and> \<not> resolves service
      then Inl (Panic (failedIdGen namespace workload app version service graphType))
      else if graphType = GraphTypeWorkload \<or> graphType = GraphTypeService
      then
        (if \<not> resolves workload \<and> \<not> resolves service
         then Inl (Panic (failedIdGen namespace workload app version service graphType))
         else if \<not> resolves workload
         then Inr (''svc_'' @ namespace @ ''_'' @ service, NodeTypeService)
         else Inr (''wl_'' @ namespace @ ''_'' @ workload, NodeTypeWorkload))
      else if resolves app
      then
        (if graphType = GraphTypeVersionedApp
         then Inr (''vapp_'' @ namespace @ ''_'' @ workload, NodeTypeApp)
         else Inr (''app_'' @ namespace @ ''_'' @ app, NodeTypeApp))
      else if resolves workload
      then Inr (''wl_'' @ namespace @ ''_'' @ workload, NodeTypeWorkload)
      else Inr (''svc_'' @ namespace @ ''_'' @ service, NodeTypeService))"
  unfolding Id_def Let_def unknownSourceRule_def unknownServiceRule_def resolves_def
    UnknownWorkload_def UnknownApp_def UnknownService_def
  by (rule refl)

lemma resolves_simps:
  "resolves ''bookinfo''" "resolves ''reviews-v1''" "resolves ''reviews''"
  "\<not> resolves []" "\<not> resolves ''unknown''"
  by (simp_all add: resolves_def)

text \<open>
  C2. With namespace, workload and app all \<open>"unknown"\<close> and an empty service, \<open>Id\<close>
  returns the id \<open>"unknown_source"\<close> and the node type unknown, for every version and
  every graph type.
\<close>

theorem Id_unknown_source:
  "Id ''unknown'' ''unknown'' ''unknown'' version [] graphType
     = Inr (''unknown_source'', ''unknown'')"
  by (simp add: Id_unfold unknownSourceRule_def graph_consts)

text \<open>
  C3. \<open>Id\<close> panics exactly when neither rule 1 nor rule 2 applies and either none of
  workload, app and service resolves, or the graph type is workload or service and
  neither workload nor service resolves. Everywhere else it returns; for the graph
  types workload and service it then returns \<open>wl_<ns>_<workload>\<close> with type workload
  when the workload resolves (whether or not the service does), and
  \<open>svc_<ns>_<service>\<close> with type service when only the service resolves.
\<close>

theorem Id_panics_exactly:
  "(isl (Id namespace workload app version service graphType) =
      (\<not> unknownSourceRule namespace workload app service
       \<and> \<not> unknownServiceRule workload app service
       \<and> ((\<not> resolves workload \<and> \<not> resolves app \<and> \<not> resolves service)
          \<or> ((graphType = GraphTypeWorkload \<or> graphType = GraphTypeService)
              \<and> \<not> resolves workload \<and> \<not> resolves service))))
   \<and> ((graphType = GraphTypeWorkload \<or> graphType = GraphTypeService)
        \<and> \<not> unknownSourceRule namespace workload app service
        \<and> \<not> unknownServiceRule workload app service
      \<longrightarrow> (resolves workload \<longrightarrow>
             Id namespace workload app version service graphType
               = Inr (''wl_'' @ namespace @ ''_'' @ workload, NodeTypeWorkload))
        \<and> (\<not> resolves workload \<and> resolves service \<longrightarrow>
             Id namespace workload app version service graphType
               = Inr (''svc_'' @ namespace @ ''_'' @ service, NodeTypeService)))"
  by (simp add: Id_unfold)

text \<open>
  C4. A node built by \<open>NewNodeExplicit\<close> with node type service has empty App,
  Workload and Version, whatever the caller supplied; and on the inputs of rule 2
  (workload, app and service all \<open>"unknown"\<close>) \<open>Id\<close> returns exactly
  \<open>svc_<ns>_unknown\<close> with type service, for every namespace, version and graph type.
\<close>

theorem service_node_trimmed:
  "App (NewNodeExplicit id' namespace workload app version service NodeTypeService graphType) = []
   \<and> Workload (NewNodeExplicit id' namespace workload app version service NodeTypeService graphType) = []
   \<and> Version (NewNodeExplicit id' namespace workload app version service NodeTypeService graphType) = []
   \<and> Id namespace UnknownWorkload UnknownApp version UnknownService graphType
       = Inr (''svc_'' @ namespace @ ''_unknown'', NodeTypeService)"
  by (simp add: NewNodeExplicit_def Id_unfold unknownSourceRule_def unknownServiceRule_def
      NodeTypeService_def NodeTypeWorkload_def NodeTypeApp_def UnknownService_def)

text \<open>
  C10. The result of \<open>Id\<close> does not depend on the version: wherever \<open>Id\<close> returns
  normally for one version, it returns the same id and node type for every other.
\<close>

theorem Id_version_independent:
  "\<not> isl (Id namespace workload app v1 service graphType) \<Longrightarrow>
   Id namespace workload app v2 service graphType
     = Id namespace workload app v1 service graphType"
  by (simp add: Id_unfold split: if_splits)


theorem Id_panics_exactly_witness:
  "\<not> isl (Id ''bookinfo'' ''reviews-v1'' ''reviews'' ''v1'' ''reviews'' GraphTypeWorkload)
   \<and> Id ''bookinfo'' ''reviews-v1'' ''reviews'' ''v1'' ''reviews'' GraphTypeWorkload
       = Inr (''wl_bookinfo_reviews-v1'', NodeTypeWorkload)
   \<and> isl (Id ''bookinfo'' [] ''reviews'' ''v1'' [] GraphTypeService)
   \<and> Id ''bookinfo'' [] ''unknown'' ''v1'' ''reviews'' GraphTypeService
       = Inr (''svc_bookinfo_reviews'', NodeTypeService)"
  using Id_panics_exactly [of "''bookinfo''" "''reviews-v1''" "''reviews''" "''v1''"
      "''reviews''" GraphTypeWorkload]
    Id_panics_exactly [of "''bookinfo''" "[]" "''reviews''" "''v1''" "[]" GraphTypeService]
    Id_panics_exactly [of "''bookinfo''" "[]" "''unknown''" "''v1''" "''reviews''"
      GraphTypeService]
  by (simp add: unknownSourceRule_def unknownServiceRule_def resolves_simps
      UnknownWorkload_def UnknownNamespace_def UnknownApp_def UnknownService_def)

theorem Id_version_independent_witness:
  "\<not> isl (Id ''bookinfo'' ''reviews-v1'' ''reviews'' ''v1'' ''reviews'' GraphTypeVersionedApp)
   \<and> Id ''bookinfo'' ''reviews-v1'' ''reviews'' ''v2'' ''reviews'' GraphTypeVersionedApp
       = Id ''bookinfo'' ''reviews-v1'' ''reviews'' ''v1'' ''reviews'' GraphTypeVersionedApp
   \<and> Id ''bookinfo'' ''reviews-v1'' ''reviews'' ''v2'' ''reviews'' GraphTypeVersionedApp
       = Inr (''vapp_bookinfo_reviews-v1'', NodeTypeApp)"
proof -
  have r: "Id ''bookinfo'' ''reviews-v1'' ''reviews'' ''v1'' ''reviews'' GraphTypeVersionedApp
             = Inr (''vapp_bookinfo_reviews-v1'', NodeTypeApp)"
    by (simp add: Id_unfold unknownSourceRule_def unknownServiceRule_def resolves_simps
        UnknownWorkload_def UnknownNamespace_def UnknownApp_def UnknownService_def
        GraphTypeVersionedApp_def GraphTypeWorkload_def GraphTypeService_def)
  then have h: "\<not> isl (Id ''bookinfo'' ''reviews-v1'' ''reviews'' ''v1'' ''reviews''
      GraphTypeVersionedApp)"
    by simp
  from Id_version_independent [OF h, of "''v2''"] r h show ?thesis by simp
qed

section \<open>Edges\<close>

lemma AddEdge_Some:
  "nodeAt h s = Some n \<Longrightarrow>
   AddEdge h (Some s) dest =
     Inr (nextEdge h,
          h\<lparr>nodeAt := (nodeAt h)(s \<mapsto> n\<lparr>Edges := Edges n @ [Some (nextEdge h)]\<rparr>),
            edgeAt := (edgeAt h)(nextEdge h \<mapsto> NewEdge (Some s) dest),
            nextEdge := Suc (nextEdge h)\<rparr>)"
  by (simp add: AddEdge_def Let_def)

lemma heap_ok_fresh: "heap_ok h \<Longrightarrow> nextEdge h \<notin> dom (edgeAt h)"
  by (auto simp: heap_ok_def)

lemma heap_ok_fresh_node:
  "heap_ok h \<Longrightarrow> nodeAt h na = Some n \<Longrightarrow> Some (nextEdge h) \<notin> set (Edges n)"
  unfolding heap_ok_def by (meson less_irrefl)

lemma AddEdge_heap_ok:
  assumes "heap_ok h" and "AddEdge h s dest = Inr (ea, h')"
  shows "heap_ok h'"
proof (cases s)
  case None
  with assms show ?thesis by (simp add: AddEdge_def)
next
  case (Some sa)
  show ?thesis
  proof (cases "nodeAt h sa")
    case None
    with Some assms show ?thesis by (simp add: AddEdge_def)
  next
    case (Some n)
    with \<open>s = Some sa\<close> assms(2) have h': "h' = h\<lparr>nodeAt := (nodeAt h)(sa \<mapsto> n\<lparr>Edges := Edges n @ [Some (nextEdge h)]\<rparr>),
            edgeAt := (edgeAt h)(nextEdge h \<mapsto> NewEdge (Some sa) dest),
            nextEdge := Suc (nextEdge h)\<rparr>"
      by (auto simp: AddEdge_def Let_def)
    from assms(1) Some show ?thesis
      unfolding heap_ok_def h' by (fastforce simp: less_Suc_eq split: if_splits)
  qed
qed

text \<open>
  C9. \<open>AddEdge\<close> on a source node allocates one new edge (an address not in use
  before) with the given source and destination and empty metadata, appends it at the
  end of the source's edge list, returns it, and changes no other edge and no other
  node. It never deduplicates: a second call with the same destination appends a
  second, distinct edge.
\<close>

theorem AddEdge_appends_one:
  assumes ok: "heap_ok h" and src: "nodeAt h s = Some n"
  shows "\<exists>e1 h1 e2 h2.
           AddEdge h (Some s) dest = Inr (e1, h1)
         \<and> e1 \<notin> dom (edgeAt h) \<and> Some e1 \<notin> set (Edges n)
         \<and> edgeAt h1 e1 = Some \<lparr>Source = Some s, Dest = dest, EdgeMetadata = Map.empty\<rparr>
         \<and> nodeAt h1 s = Some (n\<lparr>Edges := Edges n @ [Some e1]\<rparr>)
         \<and> (\<forall>ea. ea \<noteq> e1 \<longrightarrow> edgeAt h1 ea = edgeAt h ea)
         \<and> (\<forall>na. na \<noteq> s \<longrightarrow> nodeAt h1 na = nodeAt h na)
         \<and> AddEdge h1 (Some s) dest = Inr (e2, h2)
         \<and> e2 \<noteq> e1
         \<and> nodeAt h2 s = Some (n\<lparr>Edges := Edges n @ [Some e1, Some e2]\<rparr>)
         \<and> edgeAt h2 e1 = Some \<lparr>Source = Some s, Dest = dest, EdgeMetadata = Map.empty\<rparr>
         \<and> edgeAt h2 e2 = Some \<lparr>Source = Some s, Dest = dest, EdgeMetadata = Map.empty\<rparr>"
proof -
  define e1 where "e1 = nextEdge h"
  define n1 where "n1 = n\<lparr>Edges := Edges n @ [Some e1]\<rparr>"
  define h1 where "h1 = h\<lparr>nodeAt := (nodeAt h)(s \<mapsto> n1),
      edgeAt := (edgeAt h)(e1 \<mapsto> NewEdge (Some s) dest), nextEdge := Suc e1\<rparr>"
  define e2 where "e2 = Suc e1"
  define h2 where "h2 = h1\<lparr>nodeAt := (nodeAt h1)(s \<mapsto> n1\<lparr>Edges := Edges n1 @ [Some e2]\<rparr>),
      edgeAt := (edgeAt h1)(e2 \<mapsto> NewEdge (Some s) dest), nextEdge := Suc e2\<rparr>"
  have a1: "AddEdge h (Some s) dest = Inr (e1, h1)"
    using AddEdge_Some [OF src, of dest] by (simp add: e1_def n1_def h1_def)
  have src1: "nodeAt h1 s = Some n1" by (simp add: h1_def)
  have nx1: "nextEdge h1 = e2" by (simp add: h1_def e2_def)
  have a2: "AddEdge h1 (Some s) dest = Inr (e2, h2)"
    using AddEdge_Some [OF src1, of dest] by (simp add: nx1 h2_def)
  have f1: "e1 \<notin> dom (edgeAt h)" using heap_ok_fresh [OF ok] by (simp add: e1_def)
  have f2: "Some e1 \<notin> set (Edges n)"
    using heap_ok_fresh_node [OF ok src] by (simp add: e1_def)
  have p1: "edgeAt h1 e1 = Some \<lparr>Source = Some s, Dest = dest, EdgeMetadata = Map.empty\<rparr>"
    by (simp add: h1_def NewEdge_def)
  have p2: "\<forall>ea. ea \<noteq> e1 \<longrightarrow> edgeAt h1 ea = edgeAt h ea" by (simp add: h1_def)
  have p3: "\<forall>na. na \<noteq> s \<longrightarrow> nodeAt h1 na = nodeAt h na" by (simp add: h1_def)
  have p4: "e2 \<noteq> e1" by (simp add: e2_def)
  have p5: "nodeAt h2 s = Some (n\<lparr>Edges := Edges n @ [Some e1, Some e2]\<rparr>)"
    by (simp add: h2_def n1_def)
  have p6: "edgeAt h2 e1 = Some \<lparr>Source = Some s, Dest = dest, EdgeMetadata = Map.empty\<rparr>"
    by (simp add: h2_def h1_def NewEdge_def e2_def)
  have p7: "edgeAt h2 e2 = Some \<lparr>Source = Some s, Dest = dest, EdgeMetadata = Map.empty\<rparr>"
    by (simp add: h2_def NewEdge_def)
  from a1 a2 f1 f2 p1 p2 p3 p4 p5 p6 p7 src1 n1_def show ?thesis by blast
qed

theorem AddEdge_appends_one_witness:
  "heap_ok twoNodeHeap \<and> (\<exists>n e1 h1 e2 h2. nodeAt twoNodeHeap 0 = Some n \<and> Edges n = []
      \<and> AddEdge twoNodeHeap (Some 0) (Some 1) = Inr (e1, h1)
      \<and> AddEdge h1 (Some 0) (Some 1) = Inr (e2, h2)
      \<and> e2 \<noteq> e1
      \<and> map_option Edges (nodeAt h2 0) = Some [Some e1, Some e2]
      \<and> edgeAt h2 e1 = Some \<lparr>Source = Some 0, Dest = Some 1, EdgeMetadata = Map.empty\<rparr>
      \<and> edgeAt h2 e2 = Some \<lparr>Source = Some 0, Dest = Some 1, EdgeMetadata = Map.empty\<rparr>)"
proof -
  define n where "n = (NewNodeExplicit ''wl_ns_a'' ''ns'' ''a'' [] [] [] NodeTypeWorkload GraphTypeWorkload :: unit Node)"
  have ok: "heap_ok twoNodeHeap" by (simp add: heap_ok_def twoNodeHeap_def NewNodeExplicit_def)
  have src: "nodeAt twoNodeHeap 0 = Some n" by (simp add: twoNodeHeap_def n_def)
  have en: "Edges n = []" by (simp add: n_def NewNodeExplicit_def)
  from AddEdge_appends_one [OF ok src, of "Some 1"] ok src en show ?thesis
    by (auto simp: en)
qed

section \<open>Options resolver\<close>

text \<open>
  C5, as stated, fails where the creation time is the zero time: the guard
  \<open>!nsCreationTime.IsZero()\<close> returns the requested duration unclamped. With the zero
  creation time, 60 minutes requested and a query time 10 minutes after the zero time,
  the result is 60 minutes, while the minimum of the claim is 10 minutes.
\<close>

theorem resolveNamespaceDuration_zero_creation_counterexample:
  "resolveNamespaceDuration \<lparr>sec = 63000000000, nsec = 0\<rparr> \<lparr>sec = 0, nsec = 0\<rparr>
       (60 * Minute) (600 - unixToInternal) = 60 * Minute
   \<and> min (60 * Minute) (Sub (Unix (600 - unixToInternal)) \<lparr>sec = 0, nsec = 0\<rparr>) = 10 * Minute
   \<and> resolveNamespaceDuration \<lparr>sec = 63000000000, nsec = 0\<rparr> \<lparr>sec = 0, nsec = 0\<rparr>
       (60 * Minute) (600 - unixToInternal)
     \<noteq> min (60 * Minute) (Sub (Unix (600 - unixToInternal)) \<lparr>sec = 0, nsec = 0\<rparr>)"
  by (simp add: resolveNamespaceDuration_def IsZero_def Sub_def Unix_def wrap64_def
      unixToInternal_def Minute_def Second_def minDuration_def maxDuration_def)

text \<open>
  C5, amended. For every creation time other than the zero time,
  \<open>resolveNamespaceDuration\<close> returns the minimum of the requested duration and
  \<open>referenceTime.Sub(creationTime)\<close>, where the reference time is the query timestamp,
  or the clock reading when the query timestamp is zero; for the zero creation time it
  returns the requested duration. In particular a namespace created at a non-zero time
  \<open>T\<close>, with 60 minutes requested and the non-zero query time \<open>T\<close> + 10 minutes,
  resolves to 10 minutes.
\<close>

theorem resolveNamespaceDuration_clamps:
  "(\<not> IsZero nsCreationTime \<longrightarrow>
      resolveNamespaceDuration now nsCreationTime requestedRange queryTime
        = min requestedRange
            (Sub (if queryTime \<noteq> 0 then Unix queryTime else now) nsCreationTime))
   \<and> (IsZero nsCreationTime \<longrightarrow>
      resolveNamespaceDuration now nsCreationTime requestedRange queryTime = requestedRange)
   \<and> (\<not> IsZero nsCreationTime \<and> queryTime \<noteq> 0
        \<and> Unix queryTime = \<lparr>sec = sec nsCreationTime + 600, nsec = nsec nsCreationTime\<rparr>
      \<longrightarrow> resolveNamespaceDuration now nsCreationTime (60 * Minute) queryTime = 10 * Minute)"
proof (intro conjI impI)
  assume "\<not> IsZero nsCreationTime"
  then show "resolveNamespaceDuration now nsCreationTime requestedRange queryTime
        = min requestedRange
            (Sub (if queryTime \<noteq> 0 then Unix queryTime else now) nsCreationTime)"
    by (simp add: resolveNamespaceDuration_def Let_def min_def)
next
  assume "IsZero nsCreationTime"
  then show "resolveNamespaceDuration now nsCreationTime requestedRange queryTime = requestedRange"
    by (simp add: resolveNamespaceDuration_def)
next
  assume a: "\<not> IsZero nsCreationTime \<and> queryTime \<noteq> 0
        \<and> Unix queryTime = \<lparr>sec = sec nsCreationTime + 600, nsec = nsec nsCreationTime\<rparr>"
  then have "Sub (Unix queryTime) nsCreationTime = 10 * Minute"
    by (simp add: Sub_def Minute_def Second_def minDuration_def maxDuration_def)
  with a show "resolveNamespaceDuration now nsCreationTime (60 * Minute) queryTime = 10 * Minute"
    by (simp add: resolveNamespaceDuration_def Let_def Minute_def Second_def)
qed

theorem resolveNamespaceDuration_clamps_witness:
  "\<not> IsZero (Unix 1500000000)
   \<and> Unix 1500000600 = \<lparr>sec = sec (Unix 1500000000) + 600, nsec = nsec (Unix 1500000000)\<rparr>
   \<and> resolveNamespaceDuration \<lparr>sec = 63000000000, nsec = 0\<rparr> (Unix 1500000000)
        (60 * Minute) 1500000600 = 10 * Minute
   \<and> IsZero \<lparr>sec = 0, nsec = 0\<rparr>
   \<and> resolveNamespaceDuration \<lparr>sec = 63000000000, nsec = 0\<rparr> \<lparr>sec = 0, nsec = 0\<rparr>
        (60 * Minute) 1500000600 = 60 * Minute"
  using resolveNamespaceDuration_clamps [of "Unix 1500000000" "\<lparr>sec = 63000000000, nsec = 0\<rparr>"
      "60 * Minute" 1500000600]
    resolveNamespaceDuration_clamps [of "\<lparr>sec = 0, nsec = 0\<rparr>" "\<lparr>sec = 63000000000, nsec = 0\<rparr>"
      "60 * Minute" 1500000600]
  by (simp add: IsZero_def Unix_def wrap64_def unixToInternal_def)

lemma subseq_opt_cons:
  "(xs = [] \<or> xs = [y]) \<Longrightarrow> subseq zs ys \<Longrightarrow> subseq (xs @ zs) (y # ys)"
  by auto

text \<open>
  C7. For every parameter map (the appenders filter absent, the default marker, or any
  list of names in any order and case) the appenders that \<open>parseAppenders\<close> returns are,
  by kind, a subsequence of the fixed order dead-node, response-time, security-policy,
  unused-node, istio, sidecars-check: the order of the names in the filter never
  changes the order of the pipeline.
\<close>

theorem parseAppenders_fixed_order:
  "subseq (map kindOf (parseAppenders env params opts)) fixedOrder"
  unfolding parseAppenders_def Let_def fixedOrder_def map_append
  by (intro subseq_opt_cons) (simp_all add: Let_def)

lemma lower_sample: "asciiToLower ''sidecars_check,DEAD_NODE'' = ''sidecars_check,dead_node''"
  by code_simp

theorem parseAppenders_fixed_order_witness:
  "subseq (map kindOf (parseAppenders sampleEnv
       [''appenders'' \<mapsto> [''sidecars_check,DEAD_NODE'']] sampleOptions)) fixedOrder
   \<and> map kindOf (parseAppenders sampleEnv
       [''appenders'' \<mapsto> [''sidecars_check,DEAD_NODE'']] sampleOptions)
      = [DeadNode, SidecarsCheck]
   \<and> map kindOf (parseAppenders sampleEnv Map.empty sampleOptions) = fixedOrder"
  using parseAppenders_fixed_order [of sampleEnv
      "[''appenders'' \<mapsto> [''sidecars_check,DEAD_NODE'']]" sampleOptions]
  by (simp add: parseAppenders_def Let_def sampleEnv_def Get_def lower_sample AppenderAll_def
      fixedOrder_def)

end
